theory Spec2Isabelle
  imports Main
begin

section \<open>The data shapes declared in src/search/genius.ts\<close>

text \<open>
  The interfaces of the source file become records with the same field names. A JavaScript
  \<open>number\<close> that holds an identifier, a counter or a limit is an \<open>int\<close>; fractional
  numbers, \<open>NaN\<close> and the infinities are outside this model.

  The payload comes from the network and is only cast to \<open>ApiResponse\<close>, so two fields
  are optional here, \<open>None\<close> standing for a field that is absent (\<open>undefined\<close>) at run
  time: \<open>Section.hits\<close>, whose absence the source guards with \<open>|| []\<close>, and
  \<open>Song.primary_artists\<close>, which the source iterates without a guard.

  Three field names of the source are keywords here and carry another name:
  \<open>Song._type\<close> is \<open>type_underscore\<close>, \<open>Highlight.value\<close> is \<open>val\<close> and
  \<open>HighlightRange.end\<close> is \<open>end_of_range\<close>. None of them is read by the function.
\<close>

record OptionsParameters =
  limit :: int

record Meta =
  status :: int

record Artist =
  id :: int
  name :: string
  slug :: string
  is_verified :: bool
  is_meme_verified :: bool
  iq :: int
  image_url :: string
  header_image_url :: string
  url :: string

record PrimaryArtist = Artist +
  api_path :: string
  index_character :: string

record ReleaseDateComponents =
  year :: int
  month :: int
  day :: int

record SongStats =
  unreviewed_annotations :: int
  hot :: bool
  pageviews :: int

record Song =
  type_underscore :: string
  annotation_count :: int
  api_path :: string
  artist_names :: string
  full_title :: string
  header_image_thumbnail_url :: string
  header_image_url :: string
  id :: int
  instrumental :: bool
  lyrics_owner_id :: int
  lyrics_state :: string
  lyrics_updated_at :: int
  path :: string
  primary_artist_names :: string
  pyongs_count :: int
  relationships_index_url :: string
  release_date_components :: ReleaseDateComponents
  release_date_for_display :: string
  release_date_with_abbreviated_month_for_display :: string
  song_art_image_thumbnail_url :: string
  song_art_image_url :: string
  stats :: SongStats
  title :: string
  title_with_featured :: string
  updated_by_human_at :: int
  url :: string
  featured_artists :: "Artist list"
  primary_artist :: PrimaryArtist
  primary_artists :: "PrimaryArtist list option"

record HighlightRange =
  start :: int
  end_of_range :: int

record Highlight =
  property :: string
  val :: string
  snippet :: bool
  ranges :: "HighlightRange list"

record Hit =
  highlights :: "Highlight list"
  index :: string
  type :: string
  result :: Song

record Section =
  type :: string
  hits :: "Hit list option"

record ApiResponse_response =
  sections :: "Section list"

record ApiResponse =
  meta :: Meta
  response :: ApiResponse_response

record ArtistInfo =
  name :: string
  is_verified :: bool
  header_image_url :: string
  image_url :: string

record SongResponse =
  title :: string
  full_title :: string
  url_song :: string
  url_lyric :: string
  header_image_url :: string
  header_image_thumbnail_url :: string
  date :: string
  artist :: "ArtistInfo list"

section \<open>Errors, completions and the console\<close>

text \<open>
  What can be thrown inside the \<open>try\<close> block: a failure of the request of line 14
  (transport, status or parse), or the \<open>TypeError\<close> of a \<open>for ... of\<close> over a value
  that is not iterable (line 32).
\<close>

datatype js_error = FetchError string | TypeError string

text \<open>How a call ends for its caller: with a value, or with an exception.\<close>

datatype 'a completion = Return 'a | Throw js_error

text \<open>The console is the list of errors written by \<open>console.error\<close>, oldest first.\<close>

type_synonym console = "js_error list"

section \<open>The function geniusSearch\<close>

text \<open>
  Lines 17 to 19 are one expression at three tags,
  \<open>sections.filter(section => section.type === tag)[0]?.hits || []\<close>:
  the hits of the first section with the tag; the empty array when no section has the
  tag (\<open>[0]\<close> is \<open>undefined\<close>) or when that section has no \<open>hits\<close>.
\<close>

definition sectionHits :: "string \<Rightarrow> Section list \<Rightarrow> Hit list" where
  "sectionHits tag secs =
     (case filter (\<lambda>section. Section.type section = tag) secs of
        [] \<Rightarrow> []
      | section # _ \<Rightarrow> (case Section.hits section of None \<Rightarrow> [] | Some hs \<Rightarrow> hs))"

text \<open>Lines 32 to 39: the inner loop pushes one \<open>ArtistInfo\<close> for each primary artist.\<close>

fun artists_loop :: "PrimaryArtist list \<Rightarrow> ArtistInfo list \<Rightarrow> ArtistInfo list" where
  "artists_loop [] artistInfo = artistInfo"
| "artists_loop (artist' # rest) artistInfo =
     artists_loop rest
       (artistInfo @
         [\<lparr> ArtistInfo.name = Artist.name artist',
            ArtistInfo.is_verified = Artist.is_verified artist',
            ArtistInfo.header_image_url = Artist.header_image_url artist',
            ArtistInfo.image_url = Artist.image_url artist' \<rparr>])"

text \<open>
  Lines 28 to 52: the outer loop pushes one \<open>SongResponse\<close> for each song. Iterating
  \<open>primary_artists\<close> when the field is absent throws, which ends the loop.
\<close>

fun songs_loop :: "Hit list \<Rightarrow> SongResponse list \<Rightarrow> js_error + SongResponse list" where
  "songs_loop [] songsResponse = Inr songsResponse"
| "songs_loop (song # rest) songsResponse =
     (case Song.primary_artists (Hit.result song) of
        None \<Rightarrow> Inl (TypeError ''song.result.primary_artists is not iterable'')
      | Some artists \<Rightarrow>
          (let artistInfo = artists_loop artists []
           in songs_loop rest
                (songsResponse @
                  [\<lparr> SongResponse.title = Song.title (Hit.result song),
                     SongResponse.full_title = Song.full_title (Hit.result song),
                     SongResponse.url_song = Song.relationships_index_url (Hit.result song),
                     SongResponse.url_lyric = Song.url (Hit.result song),
                     SongResponse.header_image_url = Song.header_image_url (Hit.result song),
                     SongResponse.header_image_thumbnail_url =
                       Song.header_image_thumbnail_url (Hit.result song),
                     SongResponse.date = Song.release_date_for_display (Hit.result song),
                     SongResponse.artist = artistInfo \<rparr>])))"

text \<open>
  \<open>Array.prototype.slice(start, end)\<close> on integers: a negative bound counts from the end
  of the array, and both bounds are clamped to the array.
\<close>

definition slice :: "int \<Rightarrow> int \<Rightarrow> 'a list \<Rightarrow> 'a list" where
  "slice start' end' xs =
     (let len = int (length xs);
          k = (if start' < 0 then max (len + start') 0 else min start' len);
          final = (if end' < 0 then max (len + end') 0 else min end' len)
      in take (nat (final - k)) (drop (nat k) xs))"

text \<open>
  Lines 55 to 65. \<open>options?.limit\<close> is tested for truthiness: it is falsy when
  \<open>options\<close> is not given and when the limit is \<open>0\<close>. The function then reaches its
  end without a \<open>return\<close>, and the value is \<open>undefined\<close>, here \<open>None\<close>.
\<close>

definition apply_limit :: "OptionsParameters option \<Rightarrow> SongResponse list \<Rightarrow> SongResponse list option" where
  "apply_limit options songsResponse =
     (case options of
        None \<Rightarrow> None
      | Some opts \<Rightarrow>
          if limit opts = 0 then None
          else
            (let limit' = limit opts
             in if limit' \<ge> int (length songsResponse) then Some songsResponse
                else Some (slice 0 limit' songsResponse)))"

text \<open>Lines 17 to 22: the hits that are looked at, and the songs among them.\<close>

definition considered :: "ApiResponse \<Rightarrow> Hit list" where
  "considered data =
     (let topHit = sectionHits ''top_hit'' (sections (response data));
          song = sectionHits ''song'' (sections (response data));
          lyric = sectionHits ''lyric'' (sections (response data))
      in topHit @ song @ lyric)"

definition songs :: "ApiResponse \<Rightarrow> Hit list" where
  "songs data = filter (\<lambda>hit. Hit.type hit = ''song'') (considered data)"

text \<open>
  The body of the \<open>try\<close> block, lines 13 to 65. The request of line 14 is a parameter:
  \<open>fetched\<close> is what \<open>axios.get\<close> gave, the payload or the error it threw.
  \<open>Inl\<close> is an exception leaving the block, \<open>Inr\<close> the value the block returns.
\<close>

definition geniusSearch_try :: "js_error + ApiResponse \<Rightarrow> OptionsParameters option \<Rightarrow> js_error + SongResponse list option" where
  "geniusSearch_try fetched options =
     (case fetched of
        Inl error \<Rightarrow> Inl error
      | Inr data \<Rightarrow>
          (case songs_loop (songs data) [] of
             Inl error \<Rightarrow> Inl error
           | Inr songsResponse \<Rightarrow> Inr (apply_limit options songsResponse)))"

text \<open>
  Lines 11 to 70: the \<open>catch\<close> clause writes the error to the console and returns
  \<open>undefined\<close>. \<open>axios_get\<close> stands for the request of line 14 at the search string.
\<close>

definition geniusSearch :: "(string \<Rightarrow> js_error + ApiResponse) \<Rightarrow> string \<Rightarrow> OptionsParameters option \<Rightarrow> console \<Rightarrow> SongResponse list option completion \<times> console" where
  "geniusSearch axios_get search options console =
     (case geniusSearch_try (axios_get search) options of
        Inl error \<Rightarrow> (Return None, console @ [error])
      | Inr v \<Rightarrow> (Return v, console))"

section \<open>The projections of the specification\<close>

text \<open>
  The specification describes the result by two projections. They are written here from
  its words (sections 4.2 and 4.3), to be compared with what the loops of the source build.
  \<open>ArtistSummary_of\<close> copies the name, the verification flag, the header image URL and
  the profile image URL of an artist.
\<close>

definition ArtistSummary_of :: "PrimaryArtist \<Rightarrow> ArtistInfo" where
  "ArtistSummary_of a =
     \<lparr> ArtistInfo.name = Artist.name a,
       ArtistInfo.is_verified = Artist.is_verified a,
       ArtistInfo.header_image_url = Artist.header_image_url a,
       ArtistInfo.image_url = Artist.image_url a \<rparr>"

text \<open>
  \<open>SongResult_of\<close> copies the title, the full title, the two header images and the
  release date, takes the song-page URL from the relationships index URL and the
  lyric-page URL from the canonical URL, and attaches the summaries of the given artists.
\<close>

definition SongResult_of :: "Hit \<Rightarrow> PrimaryArtist list \<Rightarrow> SongResponse" where
  "SongResult_of h artists =
     \<lparr> SongResponse.title = Song.title (Hit.result h),
       SongResponse.full_title = Song.full_title (Hit.result h),
       SongResponse.url_song = Song.relationships_index_url (Hit.result h),
       SongResponse.url_lyric = Song.url (Hit.result h),
       SongResponse.header_image_url = Song.header_image_url (Hit.result h),
       SongResponse.header_image_thumbnail_url = Song.header_image_thumbnail_url (Hit.result h),
       SongResponse.date = Song.release_date_for_display (Hit.result h),
       SongResponse.artist = map ArtistSummary_of artists \<rparr>"

text \<open>The primary artists of a hit, none when the field is absent.\<close>

definition artists_of :: "Hit \<Rightarrow> PrimaryArtist list" where
  "artists_of h = (case Song.primary_artists (Hit.result h) of None \<Rightarrow> [] | Some as \<Rightarrow> as)"

text \<open>The result that the specification describes for a hit.\<close>

definition SongResult_for :: "Hit \<Rightarrow> SongResponse" where
  "SongResult_for h = SongResult_of h (artists_of h)"

text \<open>
  The specification's reading of lines 17 to 19 (section 4.1): the entries of the first
  section with the tag, and nothing when there is none.
\<close>

definition entriesOfFirst :: "string \<Rightarrow> Section list \<Rightarrow> Hit list" where
  "entriesOfFirst tag secs =
     (case find (\<lambda>s. Section.type s = tag) secs of
        None \<Rightarrow> []
      | Some s \<Rightarrow> (case Section.hits s of None \<Rightarrow> [] | Some hs \<Rightarrow> hs))"

section \<open>Example payloads\<close>

definition queen :: PrimaryArtist where
  "queen =
     \<lparr> Artist.id = 563, Artist.name = ''Queen'', Artist.slug = ''Queen'',
       Artist.is_verified = True, Artist.is_meme_verified = False, Artist.iq = 100,
       Artist.image_url = ''https://images.example/queen.jpg'',
       Artist.header_image_url = ''https://images.example/queen-header.jpg'',
       Artist.url = ''https://genius.com/artists/Queen'',
       PrimaryArtist.api_path = ''/artists/563'', PrimaryArtist.index_character = ''q'' \<rparr>"

definition bowie :: PrimaryArtist where
  "bowie =
     \<lparr> Artist.id = 9534, Artist.name = ''David Bowie'', Artist.slug = ''David-bowie'',
       Artist.is_verified = False, Artist.is_meme_verified = False, Artist.iq = 0,
       Artist.image_url = ''https://images.example/bowie.jpg'',
       Artist.header_image_url = ''https://images.example/bowie-header.jpg'',
       Artist.url = ''https://genius.com/artists/David-bowie'',
       PrimaryArtist.api_path = ''/artists/9534'', PrimaryArtist.index_character = ''d'' \<rparr>"

definition song_record :: "string \<Rightarrow> PrimaryArtist list option \<Rightarrow> Song" where
  "song_record t artists =
     \<lparr> Song.type_underscore = ''song'', Song.annotation_count = 0,
       Song.api_path = ''/songs/1'', Song.artist_names = ''Queen'',
       Song.full_title = t @ '' by Queen'',
       Song.header_image_thumbnail_url = ''https://images.example/thumb.jpg'',
       Song.header_image_url = ''https://images.example/header.jpg'',
       Song.id = 1, Song.instrumental = False, Song.lyrics_owner_id = 0,
       Song.lyrics_state = ''complete'', Song.lyrics_updated_at = 0,
       Song.path = ''/Queen-lyrics'', Song.primary_artist_names = ''Queen'',
       Song.pyongs_count = 0,
       Song.relationships_index_url = ''https://genius.com/Queen-sample'',
       Song.release_date_components = \<lparr> year = 1975, month = 10, day = 31 \<rparr>,
       Song.release_date_for_display = ''October 31, 1975'',
       Song.release_date_with_abbreviated_month_for_display = ''Oct. 31, 1975'',
       Song.song_art_image_thumbnail_url = ''https://images.example/art-thumb.jpg'',
       Song.song_art_image_url = ''https://images.example/art.jpg'',
       Song.stats = \<lparr> unreviewed_annotations = 0, hot = False, pageviews = 0 \<rparr>,
       Song.title = t, Song.title_with_featured = t, Song.updated_by_human_at = 0,
       Song.url = ''https://genius.com/Queen-lyrics'',
       Song.featured_artists = [], Song.primary_artist = queen,
       Song.primary_artists = artists \<rparr>"

text \<open>A request that answers every search with the payload, and one that always fails.\<close>

definition answering :: "ApiResponse \<Rightarrow> string \<Rightarrow> js_error + ApiResponse" where
  "answering data search = Inr data"

definition refusing :: "js_error \<Rightarrow> string \<Rightarrow> js_error + ApiResponse" where
  "refusing e search = Inl e"

definition hit_of :: "string \<Rightarrow> string \<Rightarrow> PrimaryArtist list option \<Rightarrow> Hit" where
  "hit_of kind t artists =
     \<lparr> Hit.highlights = [], Hit.index = kind, Hit.type = kind,
       Hit.result = song_record t artists \<rparr>"

definition payload_of :: "Section list \<Rightarrow> ApiResponse" where
  "payload_of secs = \<lparr> meta = \<lparr> status = 200 \<rparr>, response = \<lparr> sections = secs \<rparr> \<rparr>"

text \<open>
  Sections out of priority order, a second \<open>song\<close> section, an \<open>artist\<close> section, and
  hits that are not songs inside the \<open>top_hit\<close> and \<open>lyric\<close> sections.
\<close>

definition example_sections :: "Section list" where
  "example_sections =
     [ \<lparr> Section.type = ''lyric'',
         Section.hits = Some [hit_of ''song'' ''Under Pressure'' (Some [queen, bowie]),
                              hit_of ''album'' ''Hot Space'' (Some [queen])] \<rparr>,
       \<lparr> Section.type = ''song'',
         Section.hits = Some [hit_of ''song'' ''Killer Queen'' (Some [queen]),
                              hit_of ''song'' ''Interlude'' (Some [])] \<rparr>,
       \<lparr> Section.type = ''artist'',
         Section.hits = Some [hit_of ''artist'' ''Queen'' (Some [])] \<rparr>,
       \<lparr> Section.type = ''top_hit'',
         Section.hits = Some [hit_of ''artist'' ''Queen'' (Some []),
                              hit_of ''song'' ''Bohemian Rhapsody'' (Some [queen])] \<rparr>,
       \<lparr> Section.type = ''song'',
         Section.hits = Some [hit_of ''song'' ''Radio Ga Ga'' (Some [queen])] \<rparr> ]"

definition example_payload :: ApiResponse where
  "example_payload = payload_of example_sections"

text \<open>A payload with no section of the three tags.\<close>

definition artists_only_payload :: ApiResponse where
  "artists_only_payload =
     payload_of [ \<lparr> Section.type = ''artist'',
                    Section.hits = Some [hit_of ''artist'' ''Queen'' (Some [])] \<rparr> ]"

text \<open>A payload whose second song has no \<open>primary_artists\<close> field.\<close>

definition drifted_payload :: ApiResponse where
  "drifted_payload =
     payload_of [ \<lparr> Section.type = ''song'',
                    Section.hits = Some [hit_of ''song'' ''Bohemian Rhapsody'' (Some [queen]),
                                         hit_of ''song'' ''Untitled'' None] \<rparr> ]"

text \<open>A payload without a \<open>lyric\<close> section, with songs under the two other tags.\<close>

definition no_lyric_payload :: ApiResponse where
  "no_lyric_payload =
     payload_of [ \<lparr> Section.type = ''song'',
                    Section.hits = Some [hit_of ''song'' ''Radio Ga Ga'' (Some [queen]),
                                         hit_of ''artist'' ''Queen'' (Some [])] \<rparr>,
                  \<lparr> Section.type = ''top_hit'',
                    Section.hits = Some [hit_of ''song'' ''Under Pressure'' (Some [queen, bowie])] \<rparr> ]"

section \<open>Facts about the parts of the function\<close>

text \<open>Filtering and taking index 0 finds the first section with the tag.\<close>

lemma sectionHits_entriesOfFirst: "sectionHits tag secs = entriesOfFirst tag secs"
  unfolding sectionHits_def entriesOfFirst_def
  by (induction secs) auto

lemma sectionHits_none:
  "\<forall>s\<in>set secs. Section.type s \<noteq> tag \<Longrightarrow> sectionHits tag secs = []"
  unfolding sectionHits_def by (induction secs) auto

lemma sectionHits_first:
  "\<forall>x\<in>set pre. Section.type x \<noteq> tag \<Longrightarrow> Section.type s = tag \<Longrightarrow>
   sectionHits tag (pre @ s # post) = (case Section.hits s of None \<Rightarrow> [] | Some hs \<Rightarrow> hs)"
  unfolding sectionHits_def by (induction pre) auto

text \<open>The inner loop appends the summaries of the artists, in their order.\<close>

lemma artists_loop_map: "artists_loop as acc = acc @ map ArtistSummary_of as"
  by (induction as arbitrary: acc) (auto simp: ArtistSummary_of_def)

text \<open>
  The outer loop ends normally exactly when every song has its \<open>primary_artists\<close>, and
  then it has appended one result for each song, in their order.
\<close>

lemma songs_loop_present:
  "\<forall>h\<in>set hs. Song.primary_artists (Hit.result h) \<noteq> None \<Longrightarrow>
   songs_loop hs acc = Inr (acc @ map SongResult_for hs)"
  by (induction hs arbitrary: acc)
     (auto simp: SongResult_for_def SongResult_of_def artists_of_def artists_loop_map)

lemma songs_loop_absent:
  "\<exists>h\<in>set hs. Song.primary_artists (Hit.result h) = None \<Longrightarrow>
   songs_loop hs acc = Inl (TypeError ''song.result.primary_artists is not iterable'')"
  by (induction hs arbitrary: acc) (auto split: option.splits)

lemma songs_loop_Inr:
  assumes "songs_loop hs acc = Inr out"
  shows "(\<forall>h\<in>set hs. Song.primary_artists (Hit.result h) \<noteq> None) \<and>
         out = acc @ map SongResult_for hs"
proof (cases "\<forall>h\<in>set hs. Song.primary_artists (Hit.result h) \<noteq> None")
  case True
  with assms songs_loop_present[of hs acc] show ?thesis by simp
next
  case False
  then have "\<exists>h\<in>set hs. Song.primary_artists (Hit.result h) = None" by auto
  from songs_loop_absent[OF this, of acc] assms show ?thesis by simp
qed

text \<open>\<open>slice(0, end)\<close> is a prefix, and so is whatever the limit leaves.\<close>

lemma slice_zero:
  "slice 0 e xs =
     take (nat (if e < 0 then max (int (length xs) + e) 0 else min e (int (length xs)))) xs"
  by (simp add: slice_def Let_def)

lemma apply_limit_prefix:
  assumes "apply_limit opts R = Some out"
  shows "out = take (length out) R"
proof -
  from assms obtain n where "out = take n R"
    unfolding apply_limit_def
    by (auto simp: slice_zero Let_def split: option.splits if_splits intro: that[of "length R"])
  then show ?thesis by (auto simp: min_def)
qed

lemma apply_limit_positive:
  "1 \<le> L \<Longrightarrow>
   apply_limit (Some \<lparr>limit = L\<rparr>) R = Some (if L \<ge> int (length R) then R else take (nat L) R)"
  unfolding apply_limit_def by (auto simp: slice_zero Let_def)

text \<open>The two example requests.\<close>

lemma answering_Inr: "answering data search = Inr data"
  by (simp add: answering_def)

lemma refusing_Inl: "refusing e search = Inl e"
  by (simp add: refusing_def)

text \<open>What a call returns when the request gave a payload.\<close>

lemma geniusSearch_payload:
  "axios_get search = Inr data \<Longrightarrow>
   geniusSearch axios_get search options console =
     (case songs_loop (songs data) [] of
        Inl e \<Rightarrow> (Return None, console @ [e])
      | Inr R \<Rightarrow> (Return (apply_limit options R), console))"
  by (simp add: geniusSearch_def geniusSearch_try_def split: sum.splits)

lemma geniusSearch_Some:
  assumes "axios_get search = Inr data"
    and "fst (geniusSearch axios_get search options console) = Return (Some out)"
  shows "songs_loop (songs data) [] = Inr (map SongResult_for (songs data))
         \<and> apply_limit options (map SongResult_for (songs data)) = Some out"
proof (cases "songs_loop (songs data) []")
  case (Inl e)
  with assms geniusSearch_payload[of axios_get search data options console] show ?thesis
    by simp
next
  case (Inr R)
  from songs_loop_Inr[OF Inr] have "R = map SongResult_for (songs data)"
    by simp
  with Inr assms geniusSearch_payload[of axios_get search data options console] show ?thesis
    by simp
qed

text \<open>What a returned list is, and what the loop built at each index.\<close>

lemma geniusSearch_returned:
  assumes "axios_get search = Inr data"
    and "fst (geniusSearch axios_get search options console) = Return (Some out)"
  shows "out = map SongResult_for (take (length out) (songs data))"
proof -
  from geniusSearch_Some[of axios_get search data options console out] assms
  have "apply_limit options (map SongResult_for (songs data)) = Some out"
    by blast
  from apply_limit_prefix[OF this] show ?thesis by (simp add: take_map)
qed

lemma songs_loop_nth:
  assumes "songs_loop hs [] = Inr out" and "i < length hs"
  shows "length out = length hs
         \<and> Song.primary_artists (Hit.result (hs ! i)) = Some (artists_of (hs ! i))
         \<and> out ! i = SongResult_of (hs ! i) (artists_of (hs ! i))"
proof -
  from songs_loop_Inr[OF assms(1)]
  have all: "\<forall>h\<in>set hs. Song.primary_artists (Hit.result h) \<noteq> None"
    and out: "out = map SongResult_for hs"
    by simp_all
  from all assms(2) have "Song.primary_artists (Hit.result (hs ! i)) \<noteq> None"
    by simp
  then have "Song.primary_artists (Hit.result (hs ! i)) = Some (artists_of (hs ! i))"
    by (auto simp: artists_of_def)
  with out assms(2) show ?thesis by (simp add: SongResult_for_def)
qed

lemma apply_limit_Nil: "L \<noteq> 0 \<Longrightarrow> apply_limit (Some \<lparr>limit = L\<rparr>) [] = Some []"
  by (simp add: apply_limit_def slice_zero Let_def)

text \<open>
  When every song among the hits looked at has its \<open>primary_artists\<close>, the call ends
  normally with the limit applied to the projections of these songs.
\<close>

lemma geniusSearch_completes:
  assumes "axios_get search = Inr data"
    and "\<forall>h\<in>set (considered data).
           Hit.type h = ''song'' \<longrightarrow> Song.primary_artists (Hit.result h) \<noteq> None"
  shows "geniusSearch axios_get search options console =
           (Return (apply_limit options
              (map SongResult_for (filter (\<lambda>hit. Hit.type hit = ''song'') (considered data)))),
            console)"
proof -
  from assms(2) have "\<forall>h\<in>set (songs data). Song.primary_artists (Hit.result h) \<noteq> None"
    by (simp add: songs_def)
  from songs_loop_present[OF this, of "[]"]
  have "songs_loop (songs data) [] = Inr (map SongResult_for (songs data))" by simp
  with assms(1) geniusSearch_payload[of axios_get search data options console]
  show ?thesis by (simp add: songs_def)
qed

lemma apply_limit_take:
  "1 \<le> L \<Longrightarrow> apply_limit (Some \<lparr>limit = L\<rparr>) R = Some (take (nat L) R)"
  by (simp add: apply_limit_positive)

section \<open>The claims\<close>

text \<open>
  C1. For every payload, the hits that geniusSearch looks at are the hits of the first
  section tagged \<open>top_hit\<close>, then those of the first section tagged \<open>song\<close>, then
  those of the first section tagged \<open>lyric\<close>, each in its own order. A section after
  the first one with its tag contributes nothing, whatever comes after it. Every list the
  function returns is a prefix of the projections of the songs among these hits. With a
  limit \<open>L \<ge> 1\<close>, and every song among these hits having its primary artists, the call
  returns the first \<open>L\<close> of: the projected songs of the first \<open>top_hit\<close> section, then
  those of the first \<open>song\<close> section, then those of the first \<open>lyric\<close> section.
\<close>

theorem C1_section_priority_order:
  "considered data =
     entriesOfFirst ''top_hit'' (sections (response data)) @
     entriesOfFirst ''song'' (sections (response data)) @
     entriesOfFirst ''lyric'' (sections (response data))
   \<and> ((\<forall>x\<in>set pre. Section.type x \<noteq> tag) \<and> Section.type s = tag \<longrightarrow>
        sectionHits tag (pre @ s # post) = (case Section.hits s of None \<Rightarrow> [] | Some hs \<Rightarrow> hs))
   \<and> (axios_get search = Inr data \<and>
        fst (geniusSearch axios_get search options console) = Return (Some out) \<longrightarrow>
        out = take (length out)
                (map SongResult_for
                   (filter (\<lambda>hit. Hit.type hit = ''song'') (considered data))))
   \<and> (axios_get search = Inr data \<and> 1 \<le> L \<and>
        (\<forall>h\<in>set (entriesOfFirst ''top_hit'' (sections (response data)) @
                  entriesOfFirst ''song'' (sections (response data)) @
                  entriesOfFirst ''lyric'' (sections (response data))).
           Hit.type h = ''song'' \<longrightarrow> Song.primary_artists (Hit.result h) \<noteq> None) \<longrightarrow>
        geniusSearch axios_get search (Some \<lparr>limit = L\<rparr>) console =
          (Return (Some (take (nat L)
             (map SongResult_for
                (filter (\<lambda>hit. Hit.type hit = ''song'')
                   (entriesOfFirst ''top_hit'' (sections (response data)))) @
              map SongResult_for
                (filter (\<lambda>hit. Hit.type hit = ''song'')
                   (entriesOfFirst ''song'' (sections (response data)))) @
              map SongResult_for
                (filter (\<lambda>hit. Hit.type hit = ''song'')
                   (entriesOfFirst ''lyric'' (sections (response data))))))),
           console))"
proof (intro conjI impI)
  show c: "considered data =
     entriesOfFirst ''top_hit'' (sections (response data)) @
     entriesOfFirst ''song'' (sections (response data)) @
     entriesOfFirst ''lyric'' (sections (response data))"
    by (simp add: considered_def sectionHits_entriesOfFirst)
  {
    assume a: "axios_get search = Inr data \<and> 1 \<le> L \<and>
        (\<forall>h\<in>set (entriesOfFirst ''top_hit'' (sections (response data)) @
                  entriesOfFirst ''song'' (sections (response data)) @
                  entriesOfFirst ''lyric'' (sections (response data))).
           Hit.type h = ''song'' \<longrightarrow> Song.primary_artists (Hit.result h) \<noteq> None)"
    then have p: "\<forall>h\<in>set (considered data).
           Hit.type h = ''song'' \<longrightarrow> Song.primary_artists (Hit.result h) \<noteq> None"
      unfolding c by blast
    from a have g: "axios_get search = Inr data" and l: "1 \<le> L" by simp_all
    from geniusSearch_completes[of axios_get search data "Some \<lparr>limit = L\<rparr>" console] g p
    have "geniusSearch axios_get search (Some \<lparr>limit = L\<rparr>) console =
           (Return (apply_limit (Some \<lparr>limit = L\<rparr>)
              (map SongResult_for (filter (\<lambda>hit. Hit.type hit = ''song'') (considered data)))),
            console)"
      by blast
    then show "geniusSearch axios_get search (Some \<lparr>limit = L\<rparr>) console =
          (Return (Some (take (nat L)
             (map SongResult_for
                (filter (\<lambda>hit. Hit.type hit = ''song'')
                   (entriesOfFirst ''top_hit'' (sections (response data)))) @
              map SongResult_for
                (filter (\<lambda>hit. Hit.type hit = ''song'')
                   (entriesOfFirst ''song'' (sections (response data)))) @
              map SongResult_for
                (filter (\<lambda>hit. Hit.type hit = ''song'')
                   (entriesOfFirst ''lyric'' (sections (response data))))))),
           console)"
      by (simp add: apply_limit_take[OF l] c)
  }
next
  assume "(\<forall>x\<in>set pre. Section.type x \<noteq> tag) \<and> Section.type s = tag"
  then show "sectionHits tag (pre @ s # post) = (case Section.hits s of None \<Rightarrow> [] | Some hs \<Rightarrow> hs)"
    using sectionHits_first[of pre tag s post] by blast
next
  assume a: "axios_get search = Inr data \<and>
        fst (geniusSearch axios_get search options console) = Return (Some out)"
  from geniusSearch_Some[of axios_get search data options console out] a
  have "apply_limit options (map SongResult_for (songs data)) = Some out"
    by blast
  from apply_limit_prefix[OF this]
  have "out = take (length out) (map SongResult_for (songs data))" .
  then show "out = take (length out)
                (map SongResult_for
                   (filter (\<lambda>hit. Hit.type hit = ''song'') (considered data)))"
    by (simp add: songs_def)
qed

theorem C1_section_priority_order_witness:
  "(map Section.type (take 1 example_sections) = [''lyric'']
      \<and> Section.type (example_sections ! 1) = ''song'')
   \<and> map Section.type (sections (response example_payload)) =
       [''lyric'', ''song'', ''artist'', ''top_hit'', ''song'']
   \<and> (1::int) \<le> 9
   \<and> considered example_payload =
       entriesOfFirst ''top_hit'' (sections (response example_payload)) @
       entriesOfFirst ''song'' (sections (response example_payload)) @
       entriesOfFirst ''lyric'' (sections (response example_payload))
   \<and> sectionHits ''song'' (take 1 example_sections @ example_sections ! 1 # drop 2 example_sections) =
       (case Section.hits (example_sections ! 1) of None \<Rightarrow> [] | Some hs \<Rightarrow> hs)
   \<and> geniusSearch (answering example_payload) ''queen'' (Some \<lparr>limit = 9\<rparr>) [] =
       (Return (Some (take (nat 9)
          (map SongResult_for
             (filter (\<lambda>hit. Hit.type hit = ''song'')
                (entriesOfFirst ''top_hit'' (sections (response example_payload)))) @
           map SongResult_for
             (filter (\<lambda>hit. Hit.type hit = ''song'')
                (entriesOfFirst ''song'' (sections (response example_payload)))) @
           map SongResult_for
             (filter (\<lambda>hit. Hit.type hit = ''song'')
                (entriesOfFirst ''lyric'' (sections (response example_payload))))))),
        [])
   \<and> map SongResponse.title
        (take (nat 9)
          (map SongResult_for
             (filter (\<lambda>hit. Hit.type hit = ''song'')
                (entriesOfFirst ''top_hit'' (sections (response example_payload)))) @
           map SongResult_for
             (filter (\<lambda>hit. Hit.type hit = ''song'')
                (entriesOfFirst ''song'' (sections (response example_payload)))) @
           map SongResult_for
             (filter (\<lambda>hit. Hit.type hit = ''song'')
                (entriesOfFirst ''lyric'' (sections (response example_payload)))))) =
       [''Bohemian Rhapsody'', ''Killer Queen'', ''Interlude'', ''Under Pressure'']
   \<and> fst (geniusSearch (answering example_payload) ''queen'' (Some \<lparr>limit = 3\<rparr>) []) =
       Return (Some (map SongResult_for (take 3 (songs example_payload))))
   \<and> map SongResult_for (take 3 (songs example_payload)) =
       take (length (map SongResult_for (take 3 (songs example_payload))))
         (map SongResult_for
            (filter (\<lambda>hit. Hit.type hit = ''song'') (considered example_payload)))"
proof -
  have t: "map Section.type (sections (response example_payload)) =
       [''lyric'', ''song'', ''artist'', ''top_hit'', ''song'']"
    by code_simp
  have h0: "map Section.type (take 1 example_sections) = [''lyric'']"
    by code_simp
  have h1: "(\<forall>x\<in>set (take 1 example_sections). Section.type x \<noteq> ''song'')
            \<and> Section.type (example_sections ! 1) = ''song''"
    by code_simp
  have h2: "fst (geniusSearch (answering example_payload) ''queen'' (Some \<lparr>limit = 3\<rparr>) []) =
       Return (Some (map SongResult_for (take 3 (songs example_payload))))"
    by code_simp
  have h3: "(1::int) \<le> 9" by simp
  have h4: "\<forall>h\<in>set (entriesOfFirst ''top_hit'' (sections (response example_payload)) @
                  entriesOfFirst ''song'' (sections (response example_payload)) @
                  entriesOfFirst ''lyric'' (sections (response example_payload))).
           Hit.type h = ''song'' \<longrightarrow> Song.primary_artists (Hit.result h) \<noteq> None"
    by code_simp
  have v: "map SongResponse.title
        (take (nat 9)
          (map SongResult_for
             (filter (\<lambda>hit. Hit.type hit = ''song'')
                (entriesOfFirst ''top_hit'' (sections (response example_payload)))) @
           map SongResult_for
             (filter (\<lambda>hit. Hit.type hit = ''song'')
                (entriesOfFirst ''song'' (sections (response example_payload)))) @
           map SongResult_for
             (filter (\<lambda>hit. Hit.type hit = ''song'')
                (entriesOfFirst ''lyric'' (sections (response example_payload)))))) =
       [''Bohemian Rhapsody'', ''Killer Queen'', ''Interlude'', ''Under Pressure'']"
    by code_simp
  from C1_section_priority_order
    [of example_payload "take 1 example_sections" "''song''" "example_sections ! 1"
        "drop 2 example_sections" "answering example_payload" "''queen''" "Some \<lparr>limit = 3\<rparr>" "[]"
        "map SongResult_for (take 3 (songs example_payload))" 9]
    t h0 h1 h2 h3 h4 v answering_Inr
  show ?thesis by blast
qed

text \<open>
  C2. Every list the function returns is the projection, one for one and in order, of
  hits that the function looked at and whose \<open>type\<close> is \<open>song\<close>: hits of another
  kind inside the three sections never reach the result, and when no hit looked at is a
  song the list is empty.
\<close>

theorem C2_only_song_hits:
  assumes "axios_get search = Inr data"
    and "fst (geniusSearch axios_get search options console) = Return (Some out)"
  shows "out = map SongResult_for (take (length out) (songs data))
         \<and> (\<forall>h\<in>set (take (length out) (songs data)).
               Hit.type h = ''song'' \<and> h \<in> set (considered data))
         \<and> ((\<forall>h\<in>set (considered data). Hit.type h \<noteq> ''song'') \<longrightarrow> out = [])"
proof (intro conjI ballI impI)
  show out: "out = map SongResult_for (take (length out) (songs data))"
    using geniusSearch_returned[of axios_get search data options console out] assms by blast
  {
    fix h assume "h \<in> set (take (length out) (songs data))"
    then have "h \<in> set (songs data)" by (rule in_set_takeD)
    then show "Hit.type h = ''song''" and "h \<in> set (considered data)"
      by (simp_all add: songs_def)
  }
  assume "\<forall>h\<in>set (considered data). Hit.type h \<noteq> ''song''"
  then have "songs data = []" by (simp add: songs_def filter_empty_conv)
  with out show "out = []" by simp
qed

theorem C2_only_song_hits_witness:
  "fst (geniusSearch (answering example_payload) ''queen'' (Some \<lparr>limit = 9\<rparr>) []) =
     Return (Some (map SongResult_for (songs example_payload)))
   \<and> map Hit.type (considered example_payload) =
       [''artist'', ''song'', ''song'', ''song'', ''song'', ''album'']
   \<and> length (map SongResult_for (songs example_payload)) = 4
   \<and> map Hit.type (take 4 (songs example_payload)) = [''song'', ''song'', ''song'', ''song'']"
proof -
  let ?out = "map SongResult_for (songs example_payload)"
  have h1: "fst (geniusSearch (answering example_payload) ''queen'' (Some \<lparr>limit = 9\<rparr>) []) =
     Return (Some ?out)"
    by code_simp
  have v: "map Hit.type (considered example_payload) =
       [''artist'', ''song'', ''song'', ''song'', ''song'', ''album'']"
    by code_simp
  have len: "length ?out = 4" by code_simp
  have len': "length (take 4 (songs example_payload)) = 4" by code_simp
  from C2_only_song_hits[of "answering example_payload" "''queen''" example_payload
        "Some \<lparr>limit = 9\<rparr>" "[]" ?out] h1 answering_Inr
  have "\<forall>h\<in>set (take (length ?out) (songs example_payload)). Hit.type h = ''song''"
    by blast
  then have "\<forall>h\<in>set (take 4 (songs example_payload)). Hit.type h = ''song''"
    by (simp only: len)
  then have "map Hit.type (take 4 (songs example_payload)) = replicate (length (take 4 (songs example_payload))) ''song''"
    by (simp add: map_replicate_const[symmetric] del: length_take cong: map_cong)
  then have "map Hit.type (take 4 (songs example_payload)) = [''song'', ''song'', ''song'', ''song'']"
    by (simp only: len') (simp add: numeral_eq_Suc)
  with h1 v len show ?thesis using answering_Inr refusing_Inl by blast
qed

text \<open>
  C3, as stated, fails at the limit \<open>0\<close>: it is falsy in the test of line 55, and the
  call returns \<open>undefined\<close>, neither the first \<open>0\<close> results of a payload with songs
  nor the unchanged empty list of a payload without.
\<close>

theorem C3_limit_zero_counterexample:
  "songs_loop (songs example_payload) [] =
     Inr (map SongResult_for (songs example_payload))
   \<and> length (map SongResult_for (songs example_payload)) = 4
   \<and> fst (geniusSearch (answering example_payload) ''queen'' (Some \<lparr>limit = 0\<rparr>) []) = Return None
   \<and> fst (geniusSearch (answering example_payload) ''queen'' (Some \<lparr>limit = 0\<rparr>) []) \<noteq>
       Return (Some (take (nat 0)
         (map SongResult_for (songs example_payload))))
   \<and> songs_loop (songs artists_only_payload) [] = Inr []
   \<and> fst (geniusSearch (answering artists_only_payload) ''queen'' (Some \<lparr>limit = 0\<rparr>) []) \<noteq>
       Return (Some [])"
  by code_simp

text \<open>
  C3, amended. For every list \<open>R\<close> of results that the loop built and every limit
  \<open>L \<ge> 1\<close>, the call returns \<open>R\<close> unchanged when \<open>L \<ge> |R|\<close> and the first \<open>L\<close>
  results of \<open>R\<close>, in their order, otherwise. The returned list is never longer
  than \<open>L\<close>.
\<close>

theorem C3_truncation_law:
  assumes "1 \<le> L"
    and "axios_get search = Inr data"
    and "songs_loop (songs data) [] = Inr R"
  shows "geniusSearch axios_get search (Some \<lparr>limit = L\<rparr>) console =
           (Return (Some (if L \<ge> int (length R) then R else take (nat L) R)), console)
         \<and> apply_limit (Some \<lparr>limit = L\<rparr>) R =
             Some (if L \<ge> int (length R) then R else take (nat L) R)
         \<and> int (length (if L \<ge> int (length R) then R else take (nat L) R)) \<le> L"
proof -
  from assms(1) have a: "apply_limit (Some \<lparr>limit = L\<rparr>) R =
             Some (if L \<ge> int (length R) then R else take (nat L) R)"
    by (rule apply_limit_positive)
  from geniusSearch_payload[of axios_get search data "Some \<lparr>limit = L\<rparr>" console] assms(2,3) a
  have "geniusSearch axios_get search (Some \<lparr>limit = L\<rparr>) console =
           (Return (Some (if L \<ge> int (length R) then R else take (nat L) R)), console)"
    by simp
  moreover from assms(1)
  have "int (length (if L \<ge> int (length R) then R else take (nat L) R)) \<le> L"
    by auto
  ultimately show ?thesis using a by blast
qed

theorem C3_truncation_law_witness:
  "(1::int) \<le> 2
   \<and> songs_loop (songs example_payload) [] =
       Inr (map SongResult_for (songs example_payload))
   \<and> length (map SongResult_for (songs example_payload)) = 4
   \<and> geniusSearch (answering example_payload) ''queen'' (Some \<lparr>limit = 2\<rparr>) [] =
       (Return (Some (take (nat 2)
          (map SongResult_for (songs example_payload)))), [])"
proof -
  let ?R = "map SongResult_for (songs example_payload)"
  have h1: "(1::int) \<le> 2" by simp
  have h3: "songs_loop (songs example_payload) [] = Inr ?R" by code_simp
  have len: "length ?R = 4" by code_simp
  have "geniusSearch (answering example_payload) ''queen'' (Some \<lparr>limit = 2\<rparr>) [] =
           (Return (Some (if 2 \<ge> int (length ?R) then ?R else take (nat 2) ?R)), [])"
    using C3_truncation_law[of 2 "answering example_payload" "''queen''" example_payload ?R "[]"]
      h1 h3 answering_Inr by blast
  also have "(if 2 \<ge> int (length ?R) then ?R else take (nat 2) ?R) = take (nat 2) ?R"
    by (simp only: len) simp
  finally show ?thesis using h1 h3 len by blast
qed

text \<open>
  C4. Without options the call returns \<open>undefined\<close>, whatever the request gave, also
  when the payload holds songs.
\<close>

theorem C4_no_limit_no_value:
  "fst (geniusSearch axios_get search None console) = Return None"
  by (simp add: geniusSearch_def geniusSearch_try_def apply_limit_def split: sum.splits)

theorem C4_no_limit_no_value_witness:
  "length (songs example_payload) = 4
   \<and> fst (geniusSearch (answering example_payload) ''queen'' None []) = Return None"
proof -
  have "length (songs example_payload) = 4" by code_simp
  with C4_no_limit_no_value[of "answering example_payload" "''queen''" "[]"]
  show ?thesis using answering_Inr refusing_Inl by blast
qed

text \<open>
  C5. When the loop ends normally, the result at index \<open>i\<close> carries as many artists as
  the song at index \<open>i\<close> has primary artists, and the artist at each position \<open>j\<close> has
  the name, the verification flag, the header image URL and the image URL of the
  primary artist at \<open>j\<close>, unchanged. A song whose list of primary artists is empty
  gives a result with no artist, and the loop does not throw on it.
\<close>

theorem C5_artist_projection:
  assumes "songs_loop hs [] = Inr out" and "i < length hs"
  shows "Song.primary_artists (Hit.result (hs ! i)) = Some (artists_of (hs ! i))
         \<and> SongResponse.artist (out ! i) = artists_loop (artists_of (hs ! i)) []
         \<and> length (SongResponse.artist (out ! i)) = length (artists_of (hs ! i))
         \<and> (j < length (artists_of (hs ! i)) \<longrightarrow>
              ArtistInfo.name (SongResponse.artist (out ! i) ! j) =
                Artist.name (artists_of (hs ! i) ! j)
              \<and> ArtistInfo.is_verified (SongResponse.artist (out ! i) ! j) =
                  Artist.is_verified (artists_of (hs ! i) ! j)
              \<and> ArtistInfo.header_image_url (SongResponse.artist (out ! i) ! j) =
                  Artist.header_image_url (artists_of (hs ! i) ! j)
              \<and> ArtistInfo.image_url (SongResponse.artist (out ! i) ! j) =
                  Artist.image_url (artists_of (hs ! i) ! j))
         \<and> (Song.primary_artists (Hit.result (hs ! i)) = Some [] \<longrightarrow>
              SongResponse.artist (out ! i) = [])
         \<and> (Song.primary_artists (Hit.result h) = Some [] \<longrightarrow>
              (\<exists>r. songs_loop [h] [] = Inr [r] \<and> SongResponse.artist r = []))"
proof -
  from songs_loop_nth[OF assms(1,2)]
  have p: "Song.primary_artists (Hit.result (hs ! i)) = Some (artists_of (hs ! i))"
    and o: "out ! i = SongResult_of (hs ! i) (artists_of (hs ! i))"
    by simp_all
  from o have a: "SongResponse.artist (out ! i) = map ArtistSummary_of (artists_of (hs ! i))"
    by (simp add: SongResult_of_def)
  have nth: "SongResponse.artist (out ! i) ! j = ArtistSummary_of (artists_of (hs ! i) ! j)"
    if "j < length (artists_of (hs ! i))"
    using a that by simp
  have empty: "SongResponse.artist (out ! i) = []"
    if "Song.primary_artists (Hit.result (hs ! i)) = Some []"
    using a p that by simp
  have single: "\<exists>r. songs_loop [h] [] = Inr [r] \<and> SongResponse.artist r = []"
    if "Song.primary_artists (Hit.result h) = Some []"
    using that by simp
  from p a nth empty single show ?thesis
    by (simp add: ArtistSummary_of_def artists_loop_map)
qed

theorem C5_artist_projection_witness:
  "songs_loop (songs example_payload) [] =
     Inr (map SongResult_for (songs example_payload))
   \<and> (3::nat) < length (songs example_payload)
   \<and> (1::nat) < length (artists_of (songs example_payload ! 3))
   \<and> map Artist.name (artists_of (songs example_payload ! 3)) = [''Queen'', ''David Bowie'']
   \<and> length (SongResponse.artist
        (map SongResult_for (songs example_payload) ! 3)) =
       length (artists_of (songs example_payload ! 3))
   \<and> ArtistInfo.name (SongResponse.artist
        (map SongResult_for (songs example_payload) ! 3) ! 1) =
       Artist.name (artists_of (songs example_payload ! 3) ! 1)
   \<and> ArtistInfo.is_verified (SongResponse.artist
        (map SongResult_for (songs example_payload) ! 3) ! 1) =
       Artist.is_verified (artists_of (songs example_payload ! 3) ! 1)
   \<and> (2::nat) < length (songs example_payload)
   \<and> Song.primary_artists (Hit.result (songs example_payload ! 2)) = Some []
   \<and> SongResponse.artist
        (map SongResult_for (songs example_payload) ! 2) = []"
proof -
  let ?R = "map SongResult_for (songs example_payload)"
  have h1: "songs_loop (songs example_payload) [] = Inr ?R" by code_simp
  have h2: "(3::nat) < length (songs example_payload)" by code_simp
  have h3: "(1::nat) < length (artists_of (songs example_payload ! 3))" by code_simp
  have v: "map Artist.name (artists_of (songs example_payload ! 3)) = [''Queen'', ''David Bowie'']"
    by code_simp
  have k2: "(2::nat) < length (songs example_payload)" by code_simp
  have k3: "Song.primary_artists (Hit.result (songs example_payload ! 2)) = Some []"
    by code_simp
  note a = C5_artist_projection[of "songs example_payload" ?R 3 1, OF h1 h2]
  note b = C5_artist_projection[of "songs example_payload" ?R 2 0, OF h1 k2]
  from a b h1 h2 h3 v k2 k3 show ?thesis using answering_Inr refusing_Inl by blast
qed

text \<open>
  C6. When the loop ends normally, there is one result for each song, and the result at
  index \<open>i\<close> has the title, the full title, the header image URL, the header image
  thumbnail URL and the release date for display of the song at \<open>i\<close>; its
  \<open>url_song\<close> is the song's \<open>relationships_index_url\<close>, its \<open>url_lyric\<close> the
  song's \<open>url\<close>, and its artists are what the inner loop built. These results are the
  list that the limit is applied to.
\<close>

theorem C6_result_assembly:
  assumes "songs_loop hs [] = Inr out" and "i < length hs"
  shows "length out = length hs
         \<and> SongResponse.title (out ! i) = Song.title (Hit.result (hs ! i))
         \<and> SongResponse.full_title (out ! i) = Song.full_title (Hit.result (hs ! i))
         \<and> SongResponse.url_song (out ! i) = Song.relationships_index_url (Hit.result (hs ! i))
         \<and> SongResponse.url_lyric (out ! i) = Song.url (Hit.result (hs ! i))
         \<and> SongResponse.header_image_url (out ! i) = Song.header_image_url (Hit.result (hs ! i))
         \<and> SongResponse.header_image_thumbnail_url (out ! i) =
             Song.header_image_thumbnail_url (Hit.result (hs ! i))
         \<and> SongResponse.date (out ! i) = Song.release_date_for_display (Hit.result (hs ! i))
         \<and> SongResponse.artist (out ! i) = artists_loop (artists_of (hs ! i)) []
         \<and> (axios_get search = Inr data \<and> hs = songs data \<longrightarrow>
              geniusSearch axios_get search options console =
                (Return (apply_limit options out), console))"
proof -
  have "geniusSearch axios_get search options console =
          (Return (apply_limit options out), console)"
    if "axios_get search = Inr data \<and> hs = songs data"
    using that assms(1) geniusSearch_payload[of axios_get search data options console]
    by simp
  with songs_loop_nth[OF assms] show ?thesis
    by (simp add: SongResult_of_def artists_loop_map)
qed

theorem C6_result_assembly_witness:
  "songs_loop (songs example_payload) [] =
     Inr (map SongResult_for (songs example_payload))
   \<and> (0::nat) < length (songs example_payload)
   \<and> Song.title (Hit.result (songs example_payload ! 0)) = ''Bohemian Rhapsody''
   \<and> Song.relationships_index_url (Hit.result (songs example_payload ! 0)) =
       ''https://genius.com/Queen-sample''
   \<and> Song.url (Hit.result (songs example_payload ! 0)) = ''https://genius.com/Queen-lyrics''
   \<and> SongResponse.title
        (map SongResult_for (songs example_payload) ! 0) =
       Song.title (Hit.result (songs example_payload ! 0))
   \<and> SongResponse.url_song
        (map SongResult_for (songs example_payload) ! 0) =
       Song.relationships_index_url (Hit.result (songs example_payload ! 0))
   \<and> SongResponse.url_lyric
        (map SongResult_for (songs example_payload) ! 0) =
       Song.url (Hit.result (songs example_payload ! 0))
   \<and> SongResponse.date
        (map SongResult_for (songs example_payload) ! 0) =
       Song.release_date_for_display (Hit.result (songs example_payload ! 0))
   \<and> geniusSearch (answering example_payload) ''queen'' (Some \<lparr>limit = 1\<rparr>) [] =
       (Return (apply_limit (Some \<lparr>limit = 1\<rparr>)
          (map SongResult_for (songs example_payload))), [])"
proof -
  let ?R = "map SongResult_for (songs example_payload)"
  have h1: "songs_loop (songs example_payload) [] = Inr ?R" by code_simp
  have h2: "(0::nat) < length (songs example_payload)" by code_simp
  have v1: "Song.title (Hit.result (songs example_payload ! 0)) = ''Bohemian Rhapsody''"
    by code_simp
  have v2: "Song.relationships_index_url (Hit.result (songs example_payload ! 0)) =
       ''https://genius.com/Queen-sample''"
    by code_simp
  have v3: "Song.url (Hit.result (songs example_payload ! 0)) = ''https://genius.com/Queen-lyrics''"
    by code_simp
  note a = C6_result_assembly[of "songs example_payload" ?R 0 "answering example_payload"
      "''queen''" example_payload "Some \<lparr>limit = 1\<rparr>" "[]", OF h1 h2]
  from a h1 h2 v1 v2 v3 show ?thesis using answering_Inr refusing_Inl by blast
qed

text \<open>
  C7. A tag that no section carries contributes no hit. When the section of one tag is
  missing and every song under the two other tags has its primary artists, the call ends
  normally: nothing is written to the console, and the value is what the limit makes of
  the projected songs of the two other sections. Without any section of the three tags
  no hit is looked at and the call ends normally with what the limit makes of the empty
  list, which is the empty list for a limit other than \<open>0\<close>. The same holds whenever
  no song is found.
\<close>

theorem C7_missing_sections:
  "((\<forall>s\<in>set secs. Section.type s \<noteq> tag) \<longrightarrow> sectionHits tag secs = [])
   \<and> ((\<forall>s\<in>set (sections (response data)). Section.type s \<noteq> ''lyric'') \<longrightarrow>
        considered data = sectionHits ''top_hit'' (sections (response data)) @
                          sectionHits ''song'' (sections (response data)))
   \<and> (axios_get search = Inr data \<and>
        (\<forall>s\<in>set (sections (response data)). Section.type s \<noteq> ''lyric'') \<and>
        (\<forall>h\<in>set (sectionHits ''top_hit'' (sections (response data)) @
                  sectionHits ''song'' (sections (response data))).
           Hit.type h = ''song'' \<longrightarrow> Song.primary_artists (Hit.result h) \<noteq> None) \<longrightarrow>
        geniusSearch axios_get search options console =
          (Return (apply_limit options
             (map SongResult_for
                (filter (\<lambda>hit. Hit.type hit = ''song'')
                   (sectionHits ''top_hit'' (sections (response data)) @
                    sectionHits ''song'' (sections (response data)))))),
           console))
   \<and> (axios_get search = Inr data \<and>
        (\<forall>s\<in>set (sections (response data)). Section.type s \<noteq> ''song'') \<and>
        (\<forall>h\<in>set (sectionHits ''top_hit'' (sections (response data)) @
                  sectionHits ''lyric'' (sections (response data))).
           Hit.type h = ''song'' \<longrightarrow> Song.primary_artists (Hit.result h) \<noteq> None) \<longrightarrow>
        geniusSearch axios_get search options console =
          (Return (apply_limit options
             (map SongResult_for
                (filter (\<lambda>hit. Hit.type hit = ''song'')
                   (sectionHits ''top_hit'' (sections (response data)) @
                    sectionHits ''lyric'' (sections (response data)))))),
           console))
   \<and> (axios_get search = Inr data \<and>
        (\<forall>s\<in>set (sections (response data)). Section.type s \<noteq> ''top_hit'') \<and>
        (\<forall>h\<in>set (sectionHits ''song'' (sections (response data)) @
                  sectionHits ''lyric'' (sections (response data))).
           Hit.type h = ''song'' \<longrightarrow> Song.primary_artists (Hit.result h) \<noteq> None) \<longrightarrow>
        geniusSearch axios_get search options console =
          (Return (apply_limit options
             (map SongResult_for
                (filter (\<lambda>hit. Hit.type hit = ''song'')
                   (sectionHits ''song'' (sections (response data)) @
                    sectionHits ''lyric'' (sections (response data)))))),
           console))
   \<and> (axios_get search = Inr data \<and>
        (\<forall>s\<in>set (sections (response data)).
           Section.type s \<noteq> ''top_hit'' \<and> Section.type s \<noteq> ''song'' \<and> Section.type s \<noteq> ''lyric'') \<longrightarrow>
        considered data = [] \<and>
        geniusSearch axios_get search options console = (Return (apply_limit options []), console))
   \<and> (axios_get search = Inr data \<and> songs data = [] \<longrightarrow>
        geniusSearch axios_get search options console = (Return (apply_limit options []), console))
   \<and> (L \<noteq> 0 \<longrightarrow> apply_limit (Some \<lparr>limit = L\<rparr>) [] = Some [])"
proof -
  let ?secs = "sections (response data)"
  have none: "sectionHits tag secs = []" if "\<forall>s\<in>set secs. Section.type s \<noteq> tag" for tag secs
    using that by (rule sectionHits_none)
  have lyric: "considered data = sectionHits ''top_hit'' ?secs @ sectionHits ''song'' ?secs"
    if "\<forall>s\<in>set ?secs. Section.type s \<noteq> ''lyric''"
    using none[OF that] by (simp add: considered_def)
  have song: "considered data = sectionHits ''top_hit'' ?secs @ sectionHits ''lyric'' ?secs"
    if "\<forall>s\<in>set ?secs. Section.type s \<noteq> ''song''"
    using none[OF that] by (simp add: considered_def)
  have top: "considered data = sectionHits ''song'' ?secs @ sectionHits ''lyric'' ?secs"
    if "\<forall>s\<in>set ?secs. Section.type s \<noteq> ''top_hit''"
    using none[OF that] by (simp add: considered_def)
  have completes: "geniusSearch axios_get search options console =
          (Return (apply_limit options
             (map SongResult_for (filter (\<lambda>hit. Hit.type hit = ''song'') hs))), console)"
    if "axios_get search = Inr data" and "considered data = hs"
      and "\<forall>h\<in>set hs. Hit.type h = ''song'' \<longrightarrow> Song.primary_artists (Hit.result h) \<noteq> None"
    for hs
    using that geniusSearch_completes[of axios_get search data options console] by simp
  have c1: "geniusSearch axios_get search options console =
          (Return (apply_limit options
             (map SongResult_for
                (filter (\<lambda>hit. Hit.type hit = ''song'')
                   (sectionHits ''top_hit'' ?secs @ sectionHits ''song'' ?secs)))), console)"
    if "axios_get search = Inr data \<and>
        (\<forall>s\<in>set ?secs. Section.type s \<noteq> ''lyric'') \<and>
        (\<forall>h\<in>set (sectionHits ''top_hit'' ?secs @ sectionHits ''song'' ?secs).
           Hit.type h = ''song'' \<longrightarrow> Song.primary_artists (Hit.result h) \<noteq> None)"
    using that completes[OF _ lyric] by blast
  have c2: "geniusSearch axios_get search options console =
          (Return (apply_limit options
             (map SongResult_for
                (filter (\<lambda>hit. Hit.type hit = ''song'')
                   (sectionHits ''top_hit'' ?secs @ sectionHits ''lyric'' ?secs)))), console)"
    if "axios_get search = Inr data \<and>
        (\<forall>s\<in>set ?secs. Section.type s \<noteq> ''song'') \<and>
        (\<forall>h\<in>set (sectionHits ''top_hit'' ?secs @ sectionHits ''lyric'' ?secs).
           Hit.type h = ''song'' \<longrightarrow> Song.primary_artists (Hit.result h) \<noteq> None)"
    using that completes[OF _ song] by blast
  have c3: "geniusSearch axios_get search options console =
          (Return (apply_limit options
             (map SongResult_for
                (filter (\<lambda>hit. Hit.type hit = ''song'')
                   (sectionHits ''song'' ?secs @ sectionHits ''lyric'' ?secs)))), console)"
    if "axios_get search = Inr data \<and>
        (\<forall>s\<in>set ?secs. Section.type s \<noteq> ''top_hit'') \<and>
        (\<forall>h\<in>set (sectionHits ''song'' ?secs @ sectionHits ''lyric'' ?secs).
           Hit.type h = ''song'' \<longrightarrow> Song.primary_artists (Hit.result h) \<noteq> None)"
    using that completes[OF _ top] by blast
  have all: "considered data = [] \<and>
        geniusSearch axios_get search options console = (Return (apply_limit options []), console)"
    if a: "axios_get search = Inr data \<and>
        (\<forall>s\<in>set ?secs.
           Section.type s \<noteq> ''top_hit'' \<and> Section.type s \<noteq> ''song'' \<and> Section.type s \<noteq> ''lyric'')"
  proof -
    from a have "sectionHits ''top_hit'' ?secs = []" and "sectionHits ''song'' ?secs = []"
      and "sectionHits ''lyric'' ?secs = []"
      by (simp_all add: sectionHits_none)
    then have c: "considered data = []" by (simp add: considered_def)
    then have "songs data = []" by (simp add: songs_def)
    with a c geniusSearch_payload[of axios_get search data options console]
    show ?thesis by simp
  qed
  have nosong: "geniusSearch axios_get search options console =
          (Return (apply_limit options []), console)"
    if "axios_get search = Inr data \<and> songs data = []"
    using that geniusSearch_payload[of axios_get search data options console] by simp
  have lim: "apply_limit (Some \<lparr>limit = L\<rparr>) [] = Some []" if "L \<noteq> 0"
    using that by (rule apply_limit_Nil)
  from none[of secs tag] lyric c1 c2 c3 all nosong lim show ?thesis by blast
qed

theorem C7_missing_sections_witness:
  "map Section.type (sections (response no_lyric_payload)) = [''song'', ''top_hit'']
   \<and> sectionHits ''lyric'' (sections (response no_lyric_payload)) = []
   \<and> geniusSearch (answering no_lyric_payload) ''queen'' (Some \<lparr>limit = 5\<rparr>) [] =
       (Return (apply_limit (Some \<lparr>limit = 5\<rparr>)
          (map SongResult_for
             (filter (\<lambda>hit. Hit.type hit = ''song'')
                (sectionHits ''top_hit'' (sections (response no_lyric_payload)) @
                 sectionHits ''song'' (sections (response no_lyric_payload)))))),
        [])
   \<and> map SongResponse.title
        (case apply_limit (Some \<lparr>limit = 5\<rparr>)
           (map SongResult_for
             (filter (\<lambda>hit. Hit.type hit = ''song'')
                (sectionHits ''top_hit'' (sections (response no_lyric_payload)) @
                 sectionHits ''song'' (sections (response no_lyric_payload))))) of
           None \<Rightarrow> [] | Some out \<Rightarrow> out) =
       [''Under Pressure'', ''Radio Ga Ga'']
   \<and> map Section.type (sections (response artists_only_payload)) = [''artist'']
   \<and> considered artists_only_payload = []
   \<and> geniusSearch (answering artists_only_payload) ''queen'' (Some \<lparr>limit = 5\<rparr>) [] =
       (Return (apply_limit (Some \<lparr>limit = 5\<rparr>) []), [])
   \<and> apply_limit (Some \<lparr>limit = 5\<rparr>) [] = Some []"
proof -
  have t: "map Section.type (sections (response no_lyric_payload)) = [''song'', ''top_hit'']"
    by code_simp
  have h1: "\<forall>s\<in>set (sections (response no_lyric_payload)). Section.type s \<noteq> ''lyric''"
    by code_simp
  have h2: "\<forall>h\<in>set (sectionHits ''top_hit'' (sections (response no_lyric_payload)) @
                  sectionHits ''song'' (sections (response no_lyric_payload))).
           Hit.type h = ''song'' \<longrightarrow> Song.primary_artists (Hit.result h) \<noteq> None"
    by code_simp
  have v: "map SongResponse.title
        (case apply_limit (Some \<lparr>limit = 5\<rparr>)
           (map SongResult_for
             (filter (\<lambda>hit. Hit.type hit = ''song'')
                (sectionHits ''top_hit'' (sections (response no_lyric_payload)) @
                 sectionHits ''song'' (sections (response no_lyric_payload))))) of
           None \<Rightarrow> [] | Some out \<Rightarrow> out) =
       [''Under Pressure'', ''Radio Ga Ga'']"
    by code_simp
  have t': "map Section.type (sections (response artists_only_payload)) = [''artist'']"
    by code_simp
  have k2: "\<forall>s\<in>set (sections (response artists_only_payload)).
           Section.type s \<noteq> ''top_hit'' \<and> Section.type s \<noteq> ''song'' \<and> Section.type s \<noteq> ''lyric''"
    by code_simp
  have k3: "(5::int) \<noteq> 0" by simp
  note a = C7_missing_sections[of "sections (response no_lyric_payload)" "''lyric''"
      no_lyric_payload "answering no_lyric_payload" "''queen''" "Some \<lparr>limit = 5\<rparr>" "[]" 5]
  note b = C7_missing_sections[of "sections (response artists_only_payload)" "''lyric''"
      artists_only_payload "answering artists_only_payload" "''queen''" "Some \<lparr>limit = 5\<rparr>" "[]" 5]
  have r0: "sectionHits ''lyric'' (sections (response no_lyric_payload)) = []"
    using a h1 by blast
  have r1: "geniusSearch (answering no_lyric_payload) ''queen'' (Some \<lparr>limit = 5\<rparr>) [] =
       (Return (apply_limit (Some \<lparr>limit = 5\<rparr>)
          (map SongResult_for
             (filter (\<lambda>hit. Hit.type hit = ''song'')
                (sectionHits ''top_hit'' (sections (response no_lyric_payload)) @
                 sectionHits ''song'' (sections (response no_lyric_payload)))))),
        [])"
    using a h1 h2 answering_Inr[of no_lyric_payload "''queen''"] by blast
  have r2: "considered artists_only_payload = [] \<and>
       geniusSearch (answering artists_only_payload) ''queen'' (Some \<lparr>limit = 5\<rparr>) [] =
         (Return (apply_limit (Some \<lparr>limit = 5\<rparr>) []), [])"
    using b k2 answering_Inr[of artists_only_payload "''queen''"] by blast
  have r3: "apply_limit (Some \<lparr>limit = 5\<rparr>) [] = Some []"
    using b k3 by blast
  from t r0 r1 v t' r2 r3 show ?thesis by (intro conjI) (rule t r0 r1 v t' r2[THEN conjunct1] r2[THEN conjunct2] r3)+
qed

text \<open>
  C8. When the request fails, the call returns \<open>undefined\<close> and the error is written to
  the console. No call ends with an exception.
\<close>

theorem C8_fetch_failure_absorbed:
  "(axios_get search = Inl e \<longrightarrow>
      geniusSearch axios_get search options console = (Return None, console @ [e]))
   \<and> fst (geniusSearch axios_get search options console) \<noteq> Throw e'"
  by (simp add: geniusSearch_def geniusSearch_try_def split: sum.splits)

theorem C8_fetch_failure_absorbed_witness:
  "geniusSearch (refusing (FetchError ''connect ECONNREFUSED'')) ''queen'' (Some \<lparr>limit = 3\<rparr>) [] =
     (Return None, [] @ [FetchError ''connect ECONNREFUSED''])
   \<and> fst (geniusSearch (refusing (FetchError ''connect ECONNREFUSED'')) ''queen''
            (Some \<lparr>limit = 3\<rparr>) []) \<noteq> Throw (FetchError ''connect ECONNREFUSED'')"
  using C8_fetch_failure_absorbed
    [of "refusing (FetchError ''connect ECONNREFUSED'')" "''queen''"
        "FetchError ''connect ECONNREFUSED''" "Some \<lparr>limit = 3\<rparr>" "[]"
        "FetchError ''connect ECONNREFUSED''"]
  using answering_Inr refusing_Inl by blast

text \<open>
  C9, as stated, fails: a song without the \<open>primary_artists\<close> field makes line 32
  throw, and the whole call returns \<open>undefined\<close>, not the results with an empty artist
  list for that song.
\<close>

theorem C9_absent_artists_counterexample:
  "Hit.type (songs drifted_payload ! 1) = ''song''
   \<and> Song.primary_artists (Hit.result (songs drifted_payload ! 1)) = None
   \<and> songs_loop (songs drifted_payload) [] =
       Inl (TypeError ''song.result.primary_artists is not iterable'')
   \<and> SongResponse.artist (SongResult_of (songs drifted_payload ! 1)
         (artists_of (songs drifted_payload ! 1))) = []
   \<and> fst (geniusSearch (answering drifted_payload) ''queen'' (Some \<lparr>limit = 5\<rparr>) []) \<noteq>
       Return (Some (map SongResult_for (songs drifted_payload)))
   \<and> geniusSearch (answering drifted_payload) ''queen'' (Some \<lparr>limit = 5\<rparr>) [] =
       (Return None, [TypeError ''song.result.primary_artists is not iterable''])"
  by code_simp

text \<open>
  C9, amended. When a song among those retained has no \<open>primary_artists\<close> field, the
  call writes a \<open>TypeError\<close> to the console and returns \<open>undefined\<close>. Only a field that
  is present and empty gives a result with an empty artist list.
\<close>

theorem C9_absent_artists_abort:
  "(axios_get search = Inr data \<and> h \<in> set (songs data) \<and>
      Song.primary_artists (Hit.result h) = None \<longrightarrow>
      geniusSearch axios_get search options console =
        (Return None, console @ [TypeError ''song.result.primary_artists is not iterable'']))
   \<and> (Song.primary_artists (Hit.result h') = Some [] \<longrightarrow>
        (\<exists>r. songs_loop [h'] [] = Inr [r] \<and> SongResponse.artist r = []))"
proof (intro conjI impI)
  assume a: "axios_get search = Inr data \<and> h \<in> set (songs data) \<and>
      Song.primary_artists (Hit.result h) = None"
  then have "\<exists>h\<in>set (songs data). Song.primary_artists (Hit.result h) = None" by blast
  from songs_loop_absent[OF this, of "[]"] a
    geniusSearch_payload[of axios_get search data options console]
  show "geniusSearch axios_get search options console =
        (Return None, console @ [TypeError ''song.result.primary_artists is not iterable''])"
    by simp
next
  assume "Song.primary_artists (Hit.result h') = Some []"
  then show "\<exists>r. songs_loop [h'] [] = Inr [r] \<and> SongResponse.artist r = []"
    by simp
qed

theorem C9_absent_artists_abort_witness:
  "songs drifted_payload ! 1 \<in> set (songs drifted_payload)
   \<and> Song.primary_artists (Hit.result (songs drifted_payload ! 1)) = None
   \<and> geniusSearch (answering drifted_payload) ''queen'' (Some \<lparr>limit = 5\<rparr>) [] =
        (Return None, [] @ [TypeError ''song.result.primary_artists is not iterable''])
   \<and> Song.primary_artists (Hit.result (songs example_payload ! 2)) = Some []
   \<and> (\<exists>r. songs_loop [songs example_payload ! 2] [] = Inr [r] \<and> SongResponse.artist r = [])"
proof -
  have h1: "songs drifted_payload ! 1 \<in> set (songs drifted_payload)" by code_simp
  have h2: "Song.primary_artists (Hit.result (songs drifted_payload ! 1)) = None" by code_simp
  have h3: "Song.primary_artists (Hit.result (songs example_payload ! 2)) = Some []" by code_simp
  from C9_absent_artists_abort[of "answering drifted_payload" "''queen''" drifted_payload
      "songs drifted_payload ! 1" "Some \<lparr>limit = 5\<rparr>" "[]" "songs example_payload ! 2"]
    h1 h2 h3
  show ?thesis using answering_Inr refusing_Inl by blast
qed

text \<open>
  C10. With the limit \<open>0\<close> the call returns \<open>undefined\<close>, whatever the request gave,
  and the call is in every respect the call without options.
\<close>

theorem C10_zero_limit_no_value:
  "fst (geniusSearch axios_get search (Some \<lparr>limit = 0\<rparr>) console) = Return None
   \<and> geniusSearch axios_get search (Some \<lparr>limit = 0\<rparr>) console =
       geniusSearch axios_get search None console"
  by (simp add: geniusSearch_def geniusSearch_try_def apply_limit_def split: sum.splits)

theorem C10_zero_limit_no_value_witness:
  "length (songs example_payload) = 4
   \<and> fst (geniusSearch (answering example_payload) ''queen'' (Some \<lparr>limit = 0\<rparr>) []) = Return None"
proof -
  have "length (songs example_payload) = 4" by code_simp
  with C10_zero_limit_no_value[of "answering example_payload" "''queen''" "[]"]
  show ?thesis using answering_Inr refusing_Inl by blast
qed

end
